theory Spec2Isabelle
  imports Complex_Main
begin

section \<open>JavaScript values shared by the frontend routes\<close>

text \<open>
  The route handlers of the frontend read parsed JSON. A parsed JSON document is a value
  of \<open>json\<close>; the result of a property read, which may be \<open>undefined\<close>, is a
  \<open>json option\<close> with \<open>None\<close> for \<open>undefined\<close>. Numbers carry their (finite) value.
  Everything the handlers can have thrown at them is an \<open>Error\<close> with a message.
\<close>

datatype json =
    JNull
  | JBool bool
  | JNum rat
  | JStr string
  | JArr "json list"
  | JObj "(string \<times> json) list"

datatype js_error = Error string

type_synonym jsval = "json option"

text \<open>JavaScript truthiness, as \<open>!x\<close> and \<open>x || y\<close> use it.\<close>

fun truthy :: "jsval \<Rightarrow> bool" where
  "truthy None = False"
| "truthy (Some JNull) = False"
| "truthy (Some (JBool b)) = b"
| "truthy (Some (JNum n)) = (n \<noteq> 0)"
| "truthy (Some (JStr s)) = (s \<noteq> [])"
| "truthy (Some (JArr xs)) = True"
| "truthy (Some (JObj kvs)) = True"

text \<open>
  Reading a property \<open>v.k\<close> (also by destructuring, \<open>const { k } = v\<close>): \<open>null\<close> throws a
  TypeError, an object gives the value of the key (the last one, where the document
  repeated it) or \<open>undefined\<close>, and every other value gives \<open>undefined\<close> for the keys read
  here, none of which is a built-in property.
\<close>

definition null_property_error :: js_error where
  "null_property_error = Error ''Cannot read properties of null''"

fun get_prop :: "json \<Rightarrow> string \<Rightarrow> js_error + jsval" where
  "get_prop JNull k = Inl null_property_error"
| "get_prop (JObj kvs) k = Inr (map_of (rev kvs) k)"
| "get_prop v k = Inr None"

text \<open>\<open>a || b\<close> with a defined right operand.\<close>

definition or_else :: "jsval \<Rightarrow> json \<Rightarrow> json" where
  "or_else a b = (if truthy a then the a else b)"

text \<open>
  What \<open>await fetch(...)\<close> resolves to: the status, and what \<open>await response.json()\<close>
  and \<open>await response.text()\<close> give, each of which may throw. \<open>response.ok\<close> is the
  status being in 200..299.
\<close>

record fetch_response =
  status :: nat
  json_body :: "js_error + json"
  text_body :: "js_error + string"

definition ok :: "fetch_response \<Rightarrow> bool" where
  "ok r = (200 \<le> status r \<and> status r \<le> 299)"

record http_request =
  url :: string
  http_method :: string
  request_body :: "json option"

type_synonym network = "http_request \<Rightarrow> js_error + fetch_response"

section \<open>frontend/src/app/api/oauth/connect/route.ts\<close>

datatype next_response = NextResponse (resp_body: json) (resp_status: nat)

definition missing_provider_response :: next_response where
  "missing_provider_response =
     NextResponse (JObj [(''error'', JStr ''Missing provider or user_id'')]) 400"

definition internal_error_response :: next_response where
  "internal_error_response =
     NextResponse (JObj [(''error'', JStr ''Internal server error'')]) 500"

text \<open>\<open>process.env.NEXT_PUBLIC_API_URL || 'http://localhost:8000'\<close>\<close>

definition backendUrl :: "string option \<Rightarrow> string" where
  "backendUrl api_url =
     (case api_url of
        None \<Rightarrow> ''http://localhost:8000''
      | Some u \<Rightarrow> if u = [] then ''http://localhost:8000'' else u)"

definition connect_request :: "string option \<Rightarrow> json \<Rightarrow> json \<Rightarrow> http_request" where
  "connect_request api_url provider user_id =
     \<lparr> url = backendUrl api_url @ ''/api/auth/oauth/connect'',
       http_method = ''POST'',
       request_body = Some (JObj [(''provider'', provider), (''user_id'', user_id)]) \<rparr>"

text \<open>
  The handler, given the environment variable, the network and what
  \<open>await request.json()\<close> gives. It returns the response and the requests it sent to the
  backend, in order. Every throw inside the \<open>try\<close> lands in the \<open>catch\<close>, which answers 500.
\<close>

definition POST ::
  "string option \<Rightarrow> network \<Rightarrow> js_error + json \<Rightarrow> next_response \<times> http_request list" where
  "POST api_url fetch request_json =
     (case request_json of
        Inl e \<Rightarrow> (internal_error_response, [])
      | Inr body \<Rightarrow>
          (case get_prop body ''provider'' of
             Inl e \<Rightarrow> (internal_error_response, [])
           | Inr provider \<Rightarrow>
               (case get_prop body ''user_id'' of
                  Inl e \<Rightarrow> (internal_error_response, [])
                | Inr user_id \<Rightarrow>
                    if \<not> truthy provider \<or> \<not> truthy user_id
                    then (missing_provider_response, [])
                    else
                      let req = connect_request api_url (the provider) (the user_id) in
                      (case fetch req of
                         Inl e \<Rightarrow> (internal_error_response, [req])
                       | Inr response \<Rightarrow>
                           if \<not> ok response
                           then
                             (case json_body response of
                                Inl e \<Rightarrow> (internal_error_response, [req])
                              | Inr errorData \<Rightarrow>
                                  (case get_prop errorData ''detail'' of
                                     Inl e \<Rightarrow> (internal_error_response, [req])
                                   | Inr detail \<Rightarrow>
                                       (NextResponse
                                          (JObj [(''error'',
                                             or_else detail
                                               (JStr ''Failed to connect OAuth provider''))])
                                          (status response),
                                        [req])))
                           else
                             (case json_body response of
                                Inl e \<Rightarrow> (internal_error_response, [req])
                              | Inr data \<Rightarrow> (NextResponse data 200, [req]))))))"

text \<open>
  The body has a truthy field \<open>k\<close>: it is an object whose (last) value for \<open>k\<close> is truthy.
\<close>

definition has_truthy_field :: "json \<Rightarrow> string \<Rightarrow> bool" where
  "has_truthy_field body k =
     (case body of
        JObj kvs \<Rightarrow> truthy (map_of (rev kvs) k)
      | _ \<Rightarrow> False)"

definition lacks_provider_or_user_id :: "json \<Rightarrow> bool" where
  "lacks_provider_or_user_id body =
     (\<not> has_truthy_field body ''provider'' \<or> \<not> has_truthy_field body ''user_id'')"

section \<open>frontend/src/app/api/auth/[...nextauth]/route.ts\<close>

text \<open>
  The credentials NextAuth hands to \<open>authorize\<close>: possibly \<open>undefined\<close>, and each field
  possibly missing. A string is truthy when it is there and not empty.
\<close>

record credentials =
  cred_email :: "string option"
  cred_password :: "string option"

definition truthy_string :: "string option \<Rightarrow> bool" where
  "truthy_string s = (case s of None \<Rightarrow> False | Some v \<Rightarrow> v \<noteq> [])"

text \<open>The object \<open>authorize\<close> returns; its fields are whatever the backend sent.\<close>

record user =
  id' :: jsval
  email :: jsval
  name :: jsval
  image' :: jsval

text \<open>\<open>credentials.email.split('@')[0]\<close>: the text before the first \<open>@\<close>.\<close>

definition email_prefix :: "string \<Rightarrow> string" where
  "email_prefix e = takeWhile (\<lambda>c. c \<noteq> CHR ''@'') e"

definition fallback_user :: "string \<Rightarrow> user" where
  "fallback_user e =
     \<lparr> id' = Some (JStr (''user-'' @ e)),
       email = Some (JStr e),
       name = Some (JStr (email_prefix e)),
       image' = Some JNull \<rparr>"

text \<open>The template string puts \<open>undefined\<close> where the variable is not set.\<close>

definition user_lookup_request :: "string option \<Rightarrow> string \<Rightarrow> http_request" where
  "user_lookup_request api_url e =
     \<lparr> url = (case api_url of None \<Rightarrow> ''undefined'' | Some u \<Rightarrow> u)
               @ ''/api/auth/users/email/'' @ e,
       http_method = ''GET'',
       request_body = None \<rparr>"

text \<open>
  The object built from the backend's user document. Each property read throws on
  \<open>null\<close>, as in the source; the name falls back to the email prefix.
\<close>

definition user_from_api :: "json \<Rightarrow> string \<Rightarrow> js_error + user" where
  "user_from_api u e =
     (case get_prop u ''id'' of
        Inl err \<Rightarrow> Inl err
      | Inr uid \<Rightarrow>
          (case get_prop u ''email'' of
             Inl err \<Rightarrow> Inl err
           | Inr uemail \<Rightarrow>
               (case get_prop u ''name'' of
                  Inl err \<Rightarrow> Inl err
                | Inr uname \<Rightarrow>
                    (case get_prop u ''image'' of
                       Inl err \<Rightarrow> Inl err
                     | Inr uimage \<Rightarrow>
                         Inr \<lparr> id' = uid,
                               email = uemail,
                               name = Some (or_else uname (JStr (email_prefix e))),
                               image' = uimage \<rparr>))))"

text \<open>
  \<open>authorize\<close> returns the user, or \<open>None\<close> for \<open>null\<close>, and the requests it sent. The
  logging to the console is left out. The \<open>catch\<close> and the code after the \<open>if\<close> build the
  same fallback user.
\<close>

definition authorize ::
  "string option \<Rightarrow> network \<Rightarrow> credentials option \<Rightarrow> user option \<times> http_request list" where
  "authorize api_url fetch creds =
     (let e = (case creds of None \<Rightarrow> None | Some c \<Rightarrow> cred_email c);
          p = (case creds of None \<Rightarrow> None | Some c \<Rightarrow> cred_password c)
      in
      if \<not> truthy_string e \<or> \<not> truthy_string p then (None, [])
      else
        let req = user_lookup_request api_url (the e) in
        (case fetch req of
           Inl err \<Rightarrow> (Some (fallback_user (the e)), [req])
         | Inr response \<Rightarrow>
             if ok response
             then
               (case json_body response of
                  Inl err \<Rightarrow> (Some (fallback_user (the e)), [req])
                | Inr u \<Rightarrow>
                    (case user_from_api u (the e) of
                       Inl err \<Rightarrow> (Some (fallback_user (the e)), [req])
                     | Inr usr \<Rightarrow> (Some usr, [req])))
             else
               (case text_body response of
                  Inl err \<Rightarrow> (Some (fallback_user (the e)), [req])
                | Inr errorText \<Rightarrow> (Some (fallback_user (the e)), [req]))))"

section \<open>frontend/src/lib/hooks/use-oauth.ts\<close>

text \<open>
  The state of the hook: the four \<open>useState\<close> cells. \<open>serviceStatus\<close> starts as \<open>null\<close>,
  \<open>lastRefresh\<close> as 0; \<open>Date.now()\<close> is an integer number of milliseconds.
\<close>

record oauth_state =
  serviceStatus :: json
  loading :: bool
  error :: "string option"
  lastRefresh :: int

definition status_request :: "string \<Rightarrow> http_request" where
  "status_request userId =
     \<lparr> url = ''/api/services/status?user_id='' @ userId,
       http_method = ''GET'',
       request_body = None \<rparr>"

text \<open>
  \<open>new Error(v).message\<close>: the string itself, and for any other value the conversion
  \<open>to_string\<close> that JavaScript applies to it.
\<close>

definition error_message :: "(json \<Rightarrow> string) \<Rightarrow> json \<Rightarrow> string" where
  "error_message to_string v = (case v of JStr s \<Rightarrow> s | _ \<Rightarrow> to_string v)"

text \<open>The body of the \<open>try\<close> in \<open>refreshStatus\<close>: the data to store, or what was thrown.\<close>

definition fetch_status :: "network \<Rightarrow> (json \<Rightarrow> string) \<Rightarrow> http_request \<Rightarrow> js_error + json" where
  "fetch_status fetch to_string req =
     (case fetch req of
        Inl err \<Rightarrow> Inl err
      | Inr response \<Rightarrow>
          if \<not> ok response
          then
            (case json_body response of
               Inl err \<Rightarrow> Inl err
             | Inr errorData \<Rightarrow>
                 (case get_prop errorData ''error'' of
                    Inl err \<Rightarrow> Inl err
                  | Inr er \<Rightarrow>
                      Inl (Error (error_message to_string
                                    (or_else er (JStr ''Failed to get service status''))))))
          else json_body response)"

text \<open>
  One call of \<open>refreshStatus\<close> at time \<open>now\<close>. The callback is made by \<open>useCallback\<close>
  with the dependency \<open>lastRefresh\<close>: it reads the \<open>lastRefresh\<close> of the render that
  created it, here \<open>captured\<close>, while its setters write to the current state \<open>s\<close>. A
  render of the state \<open>s\<close> hands out the callback with \<open>captured = lastRefresh s\<close>. The
  function returns the state after the call has finished and the requests it sent.
  Everything thrown here is an \<open>Error\<close>, so the \<open>catch\<close> stores its message.
\<close>

definition refreshStatus ::
  "network \<Rightarrow> (json \<Rightarrow> string) \<Rightarrow> int \<Rightarrow> int \<Rightarrow> string \<Rightarrow> oauth_state
     \<Rightarrow> oauth_state \<times> http_request list" where
  "refreshStatus fetch to_string captured now userId s =
     (if now - captured < 2000 then (s, [])
      else
        let s1 = s\<lparr> loading := True, error := None, lastRefresh := now \<rparr>;
            req = status_request userId
        in
        (case fetch_status fetch to_string req of
           Inl (Error msg) \<Rightarrow> (s1\<lparr> error := Some msg, loading := False \<rparr>, [req])
         | Inr data \<Rightarrow> (s1\<lparr> serviceStatus := data, loading := False \<rparr>, [req])))"

text \<open>
  The part of a call that runs before its first \<open>await\<close>: the state a render sees
  while the call is still waiting for the network.
\<close>

definition refreshStatus_begin :: "int \<Rightarrow> int \<Rightarrow> oauth_state \<Rightarrow> oauth_state" where
  "refreshStatus_begin captured now s =
     (if now - captured < 2000 then s
      else s\<lparr> loading := True, error := None, lastRefresh := now \<rparr>)"

section \<open>backend/app/services/email_processor.py (project_overview.md)\<close>

text \<open>
  The pipeline is the function \<open>process_email_webhook\<close> of the project overview, with
  \<open>log_email_analysis\<close> and \<open>WebSocketManager.send_update\<close>. The usage monitor, the
  auth manager, the Outlook and AI clients it hands out, the database session, the
  websocket's \<open>send_text\<close> and \<open>hash_subject\<close> are not part of the sources;
  \<open>PipedriveService.search_deals\<close> and \<open>create_deal\<close> are, and hand their work to an MCP
  client that is not. All of these are parameters: each awaited call either returns or
  raises, and what it answers may differ from one run to the next, so a later run is given
  its own services. A call may raise one of the service's own exceptions, named here by a string,
  or be cancelled: \<open>asyncio.CancelledError\<close> is not an \<open>Exception\<close>, so \<open>except Exception\<close>
  lets it pass.
\<close>

datatype py_exception =
    KeyError string
  | ValueError string
  | Raised string
  | CancelledError

record EmailAnalysis =
  sender_domain :: string
  subject :: string
  word_count :: nat
  is_sales_opportunity :: bool
  confidence :: rat
  keywords' :: "string list"
  safe_summary :: string
  tokens_used :: nat
  cost :: rat

text \<open>The row \<open>log_email_analysis\<close> stores: the keys of \<open>log_data\<close>.\<close>

record EmailAnalysisLog =
  log_user_id :: string
  log_sender_domain :: string
  log_subject_hash :: string
  log_subject_length :: nat
  log_body_word_count :: nat
  log_is_sales_opportunity :: bool
  log_confidence_score :: rat
  log_keywords_detected :: "string list"
  log_ai_reasoning :: string
  log_deal_created :: bool
  log_tokens_used :: nat
  log_cost_incurred :: rat

type_synonym deal = string

record services =
  check_limits :: "string \<Rightarrow> py_exception + unit"
  get_outlook_client :: "string \<Rightarrow> py_exception + unit"
  get_email_content :: "string \<Rightarrow> py_exception + string"
  get_ai_client :: "string \<Rightarrow> py_exception + unit"
  analyze_email :: "string \<Rightarrow> py_exception + EmailAnalysis"
  get_pipedrive_client :: "string \<Rightarrow> py_exception + unit"
  search_deals :: "string list \<Rightarrow> py_exception + deal list"
  create_deal :: "EmailAnalysis \<Rightarrow> py_exception + deal"
  db_add :: "EmailAnalysisLog \<Rightarrow> py_exception + unit"
  track_usage :: "string \<Rightarrow> nat \<Rightarrow> rat \<Rightarrow> py_exception + unit"
  send_text :: "string \<Rightarrow> EmailAnalysis \<Rightarrow> bool \<Rightarrow> py_exception + unit"
  hash_subject :: "string \<Rightarrow> string"

text \<open>The awaited calls, as they appear in the order of the run.\<close>

datatype call =
    CheckLimits string
  | GetOutlookClient string
  | GetEmailContent string
  | GetAIClient string
  | AnalyzeEmail string
  | GetPipedriveClient string
  | SearchDeals "string list"
  | CreateDeal EmailAnalysis
  | DbAdd EmailAnalysisLog
  | TrackUsage string nat rat
  | SendText string EmailAnalysis bool

text \<open>
  What a run reads and writes: the local variable \<open>email_content\<close>, the calls made so
  far, the table of analysis logs, the lines written with \<open>logger.error\<close> (the user
  and the exception each line names), and the users with a websocket in the manager's
  \<open>active_connections\<close>.
\<close>

record world =
  email_content :: "string option"
  calls :: "call list"
  email_analysis_logs :: "EmailAnalysisLog list"
  logger_errors :: "(string \<times> py_exception) list"
  active_connections :: "string set"

type_synonym 'a step = "world \<Rightarrow> (py_exception + 'a) \<times> world"

definition then_do :: "'a step \<Rightarrow> ('a \<Rightarrow> 'b step) \<Rightarrow> 'b step" where
  "then_do m f w = (case m w of (Inl e, w') \<Rightarrow> (Inl e, w') | (Inr a, w') \<Rightarrow> f a w')"

definition done_with :: "'a \<Rightarrow> 'a step" where
  "done_with a w = (Inr a, w)"

definition raise :: "py_exception \<Rightarrow> 'a step" where
  "raise e w = (Inl e, w)"

definition await :: "call \<Rightarrow> py_exception + 'a \<Rightarrow> 'a step" where
  "await c r w = (r, w\<lparr> calls := calls w @ [c] \<rparr>)"

text \<open>\<open>webhook_data['message_id']\<close> raises KeyError when the key is missing.\<close>

definition subscript :: "(string \<rightharpoonup> string) \<Rightarrow> string \<Rightarrow> string step" where
  "subscript d k = (case d k of None \<Rightarrow> raise (KeyError k) | Some v \<Rightarrow> done_with v)"

definition set_email_content :: "string option \<Rightarrow> unit step" where
  "set_email_content c w = (Inr (), w\<lparr> email_content := c \<rparr>)"

text \<open>
  The dictionary \<open>log_data\<close>. The subject's length is the length of the model's string.
\<close>

definition log_data :: "services \<Rightarrow> string \<Rightarrow> EmailAnalysis \<Rightarrow> bool \<Rightarrow> EmailAnalysisLog" where
  "log_data sv user_id analysis deal_created =
     \<lparr> log_user_id = user_id,
       log_sender_domain = sender_domain analysis,
       log_subject_hash = hash_subject sv (subject analysis),
       log_subject_length = length (subject analysis),
       log_body_word_count = word_count analysis,
       log_is_sales_opportunity = is_sales_opportunity analysis,
       log_confidence_score = confidence analysis,
       log_keywords_detected = keywords' analysis,
       log_ai_reasoning = safe_summary analysis,
       log_deal_created = deal_created,
       log_tokens_used = tokens_used analysis,
       log_cost_incurred = cost analysis \<rparr>"

text \<open>
  \<open>log_email_analysis\<close>: refuses any content, then adds the row inside a database
  session, which commits on success and rolls back and re-raises otherwise.
\<close>

definition log_email_analysis ::
  "services \<Rightarrow> string \<Rightarrow> EmailAnalysis \<Rightarrow> bool \<Rightarrow> string option \<Rightarrow> unit step" where
  "log_email_analysis sv user_id analysis deal_created content =
     (if content \<noteq> None then raise (ValueError ''Email content must never be stored'')
      else
        let row = log_data sv user_id analysis deal_created in
        then_do (await (DbAdd row) (db_add sv row)) (\<lambda>_ w.
          (Inr (), w\<lparr> email_analysis_logs := email_analysis_logs w @ [row] \<rparr>)))"

text \<open>Step 5, \<open>if analysis.is_sales_opportunity and not existing_deals\<close>.\<close>

definition create_deal_if_needed :: "services \<Rightarrow> EmailAnalysis \<Rightarrow> deal list \<Rightarrow> bool step" where
  "create_deal_if_needed sv analysis existing_deals =
     (if is_sales_opportunity analysis \<and> existing_deals = []
      then then_do (await (CreateDeal analysis) (create_deal sv analysis)) (\<lambda>deal.
             done_with True)
      else done_with False)"

text \<open>
  \<open>WebSocketManager.send_update\<close>: nothing for a user without a connection; otherwise
  the data is sent, and whatever the sending raises is caught by the bare \<open>except\<close>,
  which drops the connection. The call itself never raises.
\<close>

definition send_update :: "services \<Rightarrow> string \<Rightarrow> EmailAnalysis \<Rightarrow> bool \<Rightarrow> unit step" where
  "send_update sv user_id analysis deal_created w =
     (if user_id \<in> active_connections w
      then
        (case await (SendText user_id analysis deal_created)
                (send_text sv user_id analysis deal_created) w of
           (Inl e, w') \<Rightarrow>
             (Inr (), w'\<lparr> active_connections := active_connections w' - {user_id} \<rparr>)
         | (Inr u, w') \<Rightarrow> (Inr (), w'))
      else (Inr (), w))"

text \<open>The body of the \<open>try\<close>, steps 1 to 8.\<close>

definition try_body :: "services \<Rightarrow> (string \<rightharpoonup> string) \<Rightarrow> string \<Rightarrow> unit step" where
  "try_body sv webhook_data user_id =
     then_do (await (CheckLimits user_id) (check_limits sv user_id)) (\<lambda>_.
     then_do (await (GetOutlookClient user_id) (get_outlook_client sv user_id)) (\<lambda>_.
     then_do (subscript webhook_data ''message_id'') (\<lambda>message_id.
     then_do (await (GetEmailContent message_id) (get_email_content sv message_id)) (\<lambda>content.
     then_do (set_email_content (Some content)) (\<lambda>_.
     then_do (await (GetAIClient user_id) (get_ai_client sv user_id)) (\<lambda>_.
     then_do (await (AnalyzeEmail content) (analyze_email sv content)) (\<lambda>analysis.
     then_do (await (GetPipedriveClient user_id) (get_pipedrive_client sv user_id)) (\<lambda>_.
     then_do (await (SearchDeals (keywords' analysis)) (search_deals sv (keywords' analysis)))
       (\<lambda>existing_deals.
     then_do (create_deal_if_needed sv analysis existing_deals) (\<lambda>deal_created.
     then_do (log_email_analysis sv user_id analysis deal_created None) (\<lambda>_.
     then_do (await (TrackUsage user_id (tokens_used analysis) (cost analysis))
                (track_usage sv user_id (tokens_used analysis) (cost analysis))) (\<lambda>_.
     send_update sv user_id analysis deal_created))))))))))))"

text \<open>The line \<open>except Exception\<close> writes for an exception: none for a cancellation.\<close>

definition error_lines :: "string \<Rightarrow> py_exception \<Rightarrow> (string \<times> py_exception) list" where
  "error_lines user_id e = (if e = CancelledError then [] else [(user_id, e)])"

text \<open>
  \<open>process_email_webhook\<close>: the \<open>except\<close> logs the exception and raises it again; the
  \<open>finally\<close> sets \<open>email_content\<close> to None on every way out.
\<close>

definition process_email_webhook ::
  "services \<Rightarrow> (string \<rightharpoonup> string) \<Rightarrow> string \<Rightarrow> unit step" where
  "process_email_webhook sv webhook_data user_id w =
     (case try_body sv webhook_data user_id (w\<lparr> email_content := None \<rparr>) of
        (Inl e, w') \<Rightarrow>
          (Inl e, w'\<lparr> logger_errors := logger_errors w' @ error_lines user_id e,
                       email_content := None \<rparr>)
      | (Inr u, w') \<Rightarrow> (Inr u, w'\<lparr> email_content := None \<rparr>))"

definition fresh_world :: world where
  "fresh_world =
     \<lparr> email_content = None, calls = [], email_analysis_logs = [], logger_errors = [],
       active_connections = {} \<rparr>"

text \<open>A text occurs in a string: it is a contiguous part of it.\<close>

fun occurs_in :: "string \<Rightarrow> string \<Rightarrow> bool" where
  "occurs_in t [] = (t = [])"
| "occurs_in t (c # cs) = (take (length t) (c # cs) = t \<or> occurs_in t cs)"

text \<open>The text-valued fields of a stored row, and whether a text occurs in one of them.\<close>

definition text_fields :: "EmailAnalysisLog \<Rightarrow> string list" where
  "text_fields row =
     [log_user_id row, log_sender_domain row, log_subject_hash row, log_ai_reasoning row]
     @ log_keywords_detected row"

definition row_contains :: "string \<Rightarrow> EmailAnalysisLog \<Rightarrow> bool" where
  "row_contains t row = list_ex (occurs_in t) (text_fields row)"

text \<open>
  The world a run leaves behind, in terms of what it added: the calls it made, the rows
  it stored and the lines it logged. \<open>email_content\<close> is None afterwards.
\<close>

definition after_run ::
  "world \<Rightarrow> call list \<Rightarrow> EmailAnalysisLog list \<Rightarrow> (string \<times> py_exception) list \<Rightarrow> world" where
  "after_run w cs rows errs =
     w\<lparr> email_content := None, calls := calls w @ cs,
        email_analysis_logs := email_analysis_logs w @ rows,
        logger_errors := logger_errors w @ errs \<rparr>"

definition calls_until_search :: "string \<Rightarrow> string \<Rightarrow> string \<Rightarrow> EmailAnalysis \<Rightarrow> call list" where
  "calls_until_search uid m c a =
     [CheckLimits uid, GetOutlookClient uid, GetEmailContent m, GetAIClient uid,
      AnalyzeEmail c, GetPipedriveClient uid, SearchDeals (keywords' a)]"

definition deal_needed :: "EmailAnalysis \<Rightarrow> deal list \<Rightarrow> bool" where
  "deal_needed a ds = (is_sales_opportunity a \<and> ds = [])"

definition calls_until_create ::
  "string \<Rightarrow> string \<Rightarrow> string \<Rightarrow> EmailAnalysis \<Rightarrow> deal list \<Rightarrow> call list" where
  "calls_until_create uid m c a ds =
     calls_until_search uid m c a @ (if deal_needed a ds then [CreateDeal a] else [])"

text \<open>
  The last step of a run that got that far: the call it makes, if the user is connected,
  and the connections it leaves.
\<close>

definition update_calls :: "string \<Rightarrow> EmailAnalysis \<Rightarrow> bool \<Rightarrow> world \<Rightarrow> call list" where
  "update_calls uid a d w = (if uid \<in> active_connections w then [SendText uid a d] else [])"

definition connections_after ::
  "services \<Rightarrow> string \<Rightarrow> EmailAnalysis \<Rightarrow> bool \<Rightarrow> world \<Rightarrow> string set" where
  "connections_after sv uid a d w =
     (if uid \<in> active_connections w \<and> isl (send_text sv uid a d)
      then active_connections w - {uid} else active_connections w)"

text \<open>The calls one run makes and the rows one run stores, whatever was there before.\<close>

definition calls_of_run ::
  "services \<Rightarrow> (string \<rightharpoonup> string) \<Rightarrow> string \<Rightarrow> world \<Rightarrow> call list" where
  "calls_of_run sv wd uid w =
     drop (length (calls w)) (calls (snd (process_email_webhook sv wd uid w)))"

definition rows_of_run ::
  "services \<Rightarrow> (string \<rightharpoonup> string) \<Rightarrow> string \<Rightarrow> world \<Rightarrow> EmailAnalysisLog list" where
  "rows_of_run sv wd uid w =
     drop (length (email_analysis_logs w))
       (email_analysis_logs (snd (process_email_webhook sv wd uid w)))"

definition is_create_deal :: "call \<Rightarrow> bool" where
  "is_create_deal c = (case c of CreateDeal a \<Rightarrow> True | _ \<Rightarrow> False)"

subsection \<open>Example services\<close>

text \<open>
  A one-word email, \<open>renewal\<close>, which the analysis flags as an opportunity with
  confidence 0 and the keyword \<open>renewal\<close>; no existing deal is found, and every service
  answers.
\<close>

definition example_analysis :: EmailAnalysis where
  "example_analysis =
     \<lparr> sender_domain = ''example.com'',
       subject = ''Contract'',
       word_count = 1,
       is_sales_opportunity = True,
       confidence = 0,
       keywords' = [''renewal''],
       safe_summary = ''Asks to renew'',
       tokens_used = 150,
       cost = 1 / 100 \<rparr>"

definition example_services :: services where
  "example_services =
     \<lparr> check_limits = (\<lambda>_. Inr ()),
       get_outlook_client = (\<lambda>_. Inr ()),
       get_email_content = (\<lambda>_. Inr ''renewal''),
       get_ai_client = (\<lambda>_. Inr ()),
       analyze_email = (\<lambda>_. Inr example_analysis),
       get_pipedrive_client = (\<lambda>_. Inr ()),
       search_deals = (\<lambda>_. Inr []),
       create_deal = (\<lambda>_. Inr ''deal-1''),
       db_add = (\<lambda>_. Inr ()),
       track_usage = (\<lambda>_ _ _. Inr ()),
       send_text = (\<lambda>_ _ _. Inr ()),
       hash_subject = (\<lambda>_. ''5d41402abc4b2a76'') \<rparr>"

text \<open>The same services with the usage monitor refusing.\<close>

definition limited_services :: services where
  "limited_services =
     example_services\<lparr> check_limits := (\<lambda>_. Inl (Raised ''usage_limit_exceeded'')) \<rparr>"

text \<open>
  The services as the second run of the same webhook finds them when the search finds
  the deal the first run created.
\<close>

definition services_after_deal :: services where
  "services_after_deal = example_services\<lparr> search_deals := (\<lambda>_. Inr [''deal-1'']) \<rparr>"

text \<open>The same services with a websocket that fails to send, and a world with the
  user connected.\<close>

definition broken_socket_services :: services where
  "broken_socket_services =
     example_services\<lparr> send_text := (\<lambda>_ _ _. Inl (Raised ''connection_closed'')) \<rparr>"

definition connected_world :: world where
  "connected_world = fresh_world\<lparr> active_connections := {''u1''} \<rparr>"

definition example_webhook :: "string \<rightharpoonup> string" where
  "example_webhook = [''message_id'' \<mapsto> ''m1'']"

definition example_row :: EmailAnalysisLog where
  "example_row = log_data example_services ''u1'' example_analysis True"

definition second_row :: EmailAnalysisLog where
  "second_row = log_data services_after_deal ''u1'' example_analysis False"

definition second_calls :: "call list" where
  "second_calls =
     [CheckLimits ''u1'', GetOutlookClient ''u1'', GetEmailContent ''m1'', GetAIClient ''u1'',
      AnalyzeEmail ''renewal'', GetPipedriveClient ''u1'', SearchDeals [''renewal''],
      DbAdd second_row, TrackUsage ''u1'' 150 (1 / 100)]"

definition example_calls :: "call list" where
  "example_calls =
     [CheckLimits ''u1'', GetOutlookClient ''u1'', GetEmailContent ''m1'', GetAIClient ''u1'',
      AnalyzeEmail ''renewal'', GetPipedriveClient ''u1'', SearchDeals [''renewal''],
      CreateDeal example_analysis, DbAdd example_row, TrackUsage ''u1'' 150 (1 / 100)]"

section \<open>backend/app/services/ai_analyzer.py (project_overview.md)\<close>

text \<open>
  \<open>AIAnalyzer.analyze_email\<close>, the one place of the sources where a limit is checked
  against an estimate. The auth manager's client (known here by its \<open>model\<close>), the two
  estimators, the usage monitor's \<open>check_spend_limit\<close>, the client's \<open>analyze_content\<close>
  and \<open>EmailAnalysis.from_ai_response\<close> are not part of the sources and are parameters;
  \<open>get_analysis_prompt\<close> is the fixed prompt of the source, which nothing here reads.
\<close>

type_synonym ai_response = string

record analyzer_services =
  analyzer_get_ai_client :: "string \<Rightarrow> py_exception + string"
  estimate_tokens :: "string \<Rightarrow> nat"
  estimate_cost :: "nat \<Rightarrow> string \<Rightarrow> rat"
  check_spend_limit :: "string \<Rightarrow> rat \<Rightarrow> py_exception + unit"
  analyze_content :: "string \<Rightarrow> string \<Rightarrow> nat \<Rightarrow> py_exception + ai_response"
  from_ai_response :: "ai_response \<Rightarrow> py_exception + EmailAnalysis"
  get_analysis_prompt :: string

datatype analyzer_call =
    ClientOf string
  | CheckSpendLimit string rat
  | AnalyzeContent string string nat

text \<open>The result of the call and the awaited calls it made, in order.\<close>

definition AIAnalyzer_analyze_email ::
  "analyzer_services \<Rightarrow> string \<Rightarrow> string
     \<Rightarrow> (py_exception + EmailAnalysis) \<times> analyzer_call list" where
  "AIAnalyzer_analyze_email asv user_id content =
     (case analyzer_get_ai_client asv user_id of
        Inl e \<Rightarrow> (Inl e, [ClientOf user_id])
      | Inr model \<Rightarrow>
          let estimated_tokens = estimate_tokens asv content;
              estimated_cost = estimate_cost asv estimated_tokens model
          in
          (case check_spend_limit asv user_id estimated_cost of
             Inl e \<Rightarrow> (Inl e, [ClientOf user_id, CheckSpendLimit user_id estimated_cost])
           | Inr u \<Rightarrow>
               (case analyze_content asv content (get_analysis_prompt asv) 500 of
                  Inl e \<Rightarrow>
                    (Inl e,
                     [ClientOf user_id, CheckSpendLimit user_id estimated_cost,
                      AnalyzeContent content (get_analysis_prompt asv) 500])
                | Inr response \<Rightarrow>
                    (from_ai_response asv response,
                     [ClientOf user_id, CheckSpendLimit user_id estimated_cost,
                      AnalyzeContent content (get_analysis_prompt asv) 500]))))"

text \<open>An analyzer whose spend check refuses the estimate of one cent.\<close>

definition spend_limited_analyzer :: analyzer_services where
  "spend_limited_analyzer =
     \<lparr> analyzer_get_ai_client = (\<lambda>_. Inr ''gpt-4''),
       estimate_tokens = (\<lambda>content. length content),
       estimate_cost = (\<lambda>tokens model. 1 / 100),
       check_spend_limit = (\<lambda>_ _. Inl (Raised ''spend_limit_exceeded'')),
       analyze_content = (\<lambda>_ _ _. Inr ''{}''),
       from_ai_response = (\<lambda>_. Inr example_analysis),
       get_analysis_prompt = ''Analyze this email for sales opportunities.'' \<rparr>"

section \<open>UsageGuard\<close>



















subsection \<open>Example limits\<close>










subsection \<open>Example inputs of the frontend routes\<close>

definition example_state :: oauth_state where
  "example_state =
     \<lparr> serviceStatus = JNull, loading = False, error = None,
       lastRefresh = 1700000000000 \<rparr>"

definition status_backend :: network where
  "status_backend req =
     Inr \<lparr> status = 200, json_body = Inr (JObj [(''outlook'', JBool True)]),
           text_body = Inr [] \<rparr>"

definition object_to_string :: "json \<Rightarrow> string" where
  "object_to_string v = ''[object Object]''"

definition rejecting_backend :: network where
  "rejecting_backend req =
     Inr \<lparr> status = 400,
           json_body = Inr (JObj [(''detail'', JStr ''Missing provider or user_id'')]),
           text_body = Inr [] \<rparr>"

definition complete_body :: json where
  "complete_body = JObj [(''provider'', JStr ''pipedrive''), (''user_id'', JStr ''u1'')]"

definition unreachable_backend :: network where
  "unreachable_backend req = Inl (Error ''fetch failed'')"

definition example_credentials :: credentials where
  "example_credentials = \<lparr> cred_email = Some ''ann@example.com'', cred_password = Some ''x'' \<rparr>"

section \<open>The email pipeline\<close>

lemmas pipeline_defs = process_email_webhook_def try_body_def then_do_def await_def
  done_with_def raise_def subscript_def set_email_content_def log_email_analysis_def
  create_deal_if_needed_def Let_def

lemma after_run_simps [simp]:
  "email_content (after_run w cs rows errs) = None"
  "calls (after_run w cs rows errs) = calls w @ cs"
  "email_analysis_logs (after_run w cs rows errs) = email_analysis_logs w @ rows"
  "logger_errors (after_run w cs rows errs) = logger_errors w @ errs"
  "active_connections (after_run w cs rows errs) = active_connections w"
  by (simp_all add: after_run_def)

text \<open>
  Every run ends in one of thirteen ways: one for each call that can raise, one for the
  missing key, and the run in which nothing raises.
\<close>

lemma run_cases [case_names check outlook key fetch ai_client analyze pipedrive search create db track success]:
  fixes sv wd uid
  defines "run \<equiv> process_email_webhook sv wd uid"
  obtains
    e where "check_limits sv uid = Inl e"
      "\<forall>w. run w = (Inl e, after_run w [CheckLimits uid] [] (error_lines uid e))"
  | e where "check_limits sv uid = Inr ()" "get_outlook_client sv uid = Inl e"
      "\<forall>w. run w = (Inl e, after_run w [CheckLimits uid, GetOutlookClient uid] [] (error_lines uid e))"
  | "check_limits sv uid = Inr ()" "get_outlook_client sv uid = Inr ()"
      "wd ''message_id'' = None"
      "\<forall>w. run w = (Inl (KeyError ''message_id''),
              after_run w [CheckLimits uid, GetOutlookClient uid] []
                [(uid, KeyError ''message_id'')])"
  | m e where "check_limits sv uid = Inr ()" "get_outlook_client sv uid = Inr ()"
      "wd ''message_id'' = Some m" "get_email_content sv m = Inl e"
      "\<forall>w. run w = (Inl e, after_run w [CheckLimits uid, GetOutlookClient uid, GetEmailContent m] []
                (error_lines uid e))"
  | m c e where "check_limits sv uid = Inr ()" "get_outlook_client sv uid = Inr ()"
      "wd ''message_id'' = Some m" "get_email_content sv m = Inr c"
      "get_ai_client sv uid = Inl e"
      "\<forall>w. run w = (Inl e, after_run w [CheckLimits uid, GetOutlookClient uid, GetEmailContent m,
                GetAIClient uid] [] (error_lines uid e))"
  | m c e where "check_limits sv uid = Inr ()" "get_outlook_client sv uid = Inr ()"
      "wd ''message_id'' = Some m" "get_email_content sv m = Inr c"
      "get_ai_client sv uid = Inr ()" "analyze_email sv c = Inl e"
      "\<forall>w. run w = (Inl e, after_run w [CheckLimits uid, GetOutlookClient uid, GetEmailContent m,
                GetAIClient uid, AnalyzeEmail c] [] (error_lines uid e))"
  | m c a e where "check_limits sv uid = Inr ()" "get_outlook_client sv uid = Inr ()"
      "wd ''message_id'' = Some m" "get_email_content sv m = Inr c"
      "get_ai_client sv uid = Inr ()" "analyze_email sv c = Inr a"
      "get_pipedrive_client sv uid = Inl e"
      "\<forall>w. run w = (Inl e, after_run w [CheckLimits uid, GetOutlookClient uid, GetEmailContent m,
                GetAIClient uid, AnalyzeEmail c, GetPipedriveClient uid] [] (error_lines uid e))"
  | m c a e where "check_limits sv uid = Inr ()" "get_outlook_client sv uid = Inr ()"
      "wd ''message_id'' = Some m" "get_email_content sv m = Inr c"
      "get_ai_client sv uid = Inr ()" "analyze_email sv c = Inr a"
      "get_pipedrive_client sv uid = Inr ()" "search_deals sv (keywords' a) = Inl e"
      "\<forall>w. run w = (Inl e, after_run w (calls_until_search uid m c a) [] (error_lines uid e))"
  | m c a ds e where "check_limits sv uid = Inr ()" "get_outlook_client sv uid = Inr ()"
      "wd ''message_id'' = Some m" "get_email_content sv m = Inr c"
      "get_ai_client sv uid = Inr ()" "analyze_email sv c = Inr a"
      "get_pipedrive_client sv uid = Inr ()" "search_deals sv (keywords' a) = Inr ds"
      "deal_needed a ds" "create_deal sv a = Inl e"
      "\<forall>w. run w = (Inl e, after_run w (calls_until_create uid m c a ds) [] (error_lines uid e))"
  | m c a ds e where "check_limits sv uid = Inr ()" "get_outlook_client sv uid = Inr ()"
      "wd ''message_id'' = Some m" "get_email_content sv m = Inr c"
      "get_ai_client sv uid = Inr ()" "analyze_email sv c = Inr a"
      "get_pipedrive_client sv uid = Inr ()" "search_deals sv (keywords' a) = Inr ds"
      "deal_needed a ds \<longrightarrow> (\<exists>d. create_deal sv a = Inr d)"
      "db_add sv (log_data sv uid a (deal_needed a ds)) = Inl e"
      "\<forall>w. run w = (Inl e, after_run w
                (calls_until_create uid m c a ds @ [DbAdd (log_data sv uid a (deal_needed a ds))])
                [] (error_lines uid e))"
  | m c a ds e where "check_limits sv uid = Inr ()" "get_outlook_client sv uid = Inr ()"
      "wd ''message_id'' = Some m" "get_email_content sv m = Inr c"
      "get_ai_client sv uid = Inr ()" "analyze_email sv c = Inr a"
      "get_pipedrive_client sv uid = Inr ()" "search_deals sv (keywords' a) = Inr ds"
      "deal_needed a ds \<longrightarrow> (\<exists>d. create_deal sv a = Inr d)"
      "db_add sv (log_data sv uid a (deal_needed a ds)) = Inr ()"
      "track_usage sv uid (tokens_used a) (cost a) = Inl e"
      "\<forall>w. run w = (Inl e, after_run w
                (calls_until_create uid m c a ds @
                 [DbAdd (log_data sv uid a (deal_needed a ds)),
                  TrackUsage uid (tokens_used a) (cost a)])
                [log_data sv uid a (deal_needed a ds)] (error_lines uid e))"
  | m c a ds where "check_limits sv uid = Inr ()" "get_outlook_client sv uid = Inr ()"
      "wd ''message_id'' = Some m" "get_email_content sv m = Inr c"
      "get_ai_client sv uid = Inr ()" "analyze_email sv c = Inr a"
      "get_pipedrive_client sv uid = Inr ()" "search_deals sv (keywords' a) = Inr ds"
      "deal_needed a ds \<longrightarrow> (\<exists>d. create_deal sv a = Inr d)"
      "db_add sv (log_data sv uid a (deal_needed a ds)) = Inr ()"
      "track_usage sv uid (tokens_used a) (cost a) = Inr ()"
      "\<forall>w. run w = (Inr (),
         (after_run w
            (calls_until_create uid m c a ds @
             [DbAdd (log_data sv uid a (deal_needed a ds)),
              TrackUsage uid (tokens_used a) (cost a)] @
             update_calls uid a (deal_needed a ds) w)
            [log_data sv uid a (deal_needed a ds)] [])
         \<lparr> active_connections := connections_after sv uid a (deal_needed a ds) w \<rparr>)"
proof (cases "check_limits sv uid")
  case (Inl e)
  show ?thesis
    by (rule that(1)[of e]) (use Inl in \<open>simp_all add: run_def pipeline_defs after_run_def\<close>)
next
  case c1: (Inr u1)
  show ?thesis
  proof (cases "get_outlook_client sv uid")
    case (Inl e)
    show ?thesis
      by (rule that(2)[of e])
        (use c1 Inl in \<open>simp_all add: run_def pipeline_defs after_run_def\<close>)
  next
    case c2: (Inr u2)
    show ?thesis
    proof (cases "wd ''message_id''")
      case None
      show ?thesis
        by (rule that(3))
          (use c1 c2 None in
            \<open>simp_all add: run_def pipeline_defs after_run_def error_lines_def\<close>)
    next
      case c3: (Some m)
      show ?thesis
      proof (cases "get_email_content sv m")
        case (Inl e)
        show ?thesis
          by (rule that(4)[of m e])
            (use c1 c2 c3 Inl in \<open>simp_all add: run_def pipeline_defs after_run_def\<close>)
      next
        case c4: (Inr c)
        show ?thesis
        proof (cases "get_ai_client sv uid")
          case (Inl e)
          show ?thesis
            by (rule that(5)[of m c e])
              (use c1 c2 c3 c4 Inl in \<open>simp_all add: run_def pipeline_defs after_run_def\<close>)
        next
          case c5: (Inr u5)
          show ?thesis
          proof (cases "analyze_email sv c")
            case (Inl e)
            show ?thesis
              by (rule that(6)[of m c e])
                (use c1 c2 c3 c4 c5 Inl in
                  \<open>simp_all add: run_def pipeline_defs after_run_def\<close>)
          next
            case c6: (Inr a)
            show ?thesis
            proof (cases "get_pipedrive_client sv uid")
              case (Inl e)
              show ?thesis
                by (rule that(7)[of m c a e])
                  (use c1 c2 c3 c4 c5 c6 Inl in
                    \<open>simp_all add: run_def pipeline_defs after_run_def\<close>)
            next
              case c7: (Inr u7)
              show ?thesis
              proof (cases "search_deals sv (keywords' a)")
                case (Inl e)
                show ?thesis
                  by (rule that(8)[of m c a e])
                    (use c1 c2 c3 c4 c5 c6 c7 Inl in
                      \<open>simp_all add: run_def pipeline_defs after_run_def
                         calls_until_search_def\<close>)
              next
                case c8: (Inr ds)
                note upto = c1 c2 c3 c4 c5 c6 c7 c8
                show ?thesis
                proof (cases "deal_needed a ds \<and> (\<exists>e. create_deal sv a = Inl e)")
                  case True
                  then obtain e where e: "create_deal sv a = Inl e" by blast
                  show ?thesis
                    by (rule that(9)[of m c a ds e])
                      (use upto True e in
                        \<open>simp_all add: run_def pipeline_defs after_run_def
                           calls_until_search_def calls_until_create_def deal_needed_def\<close>)
                next
                  case False
                  then have c9: "deal_needed a ds \<longrightarrow> (\<exists>d. create_deal sv a = Inr d)"
                    by (cases "create_deal sv a") auto
                  show ?thesis
                  proof (cases "db_add sv (log_data sv uid a (deal_needed a ds))")
                    case (Inl e)
                    show ?thesis
                      by (rule that(10)[of m c a ds e])
                        (use upto c9 Inl in
                          \<open>auto simp add: run_def pipeline_defs after_run_def
                             calls_until_search_def calls_until_create_def deal_needed_def\<close>)
                  next
                    case c10: (Inr u10)
                    show ?thesis
                    proof (cases "track_usage sv uid (tokens_used a) (cost a)")
                      case (Inl e)
                      show ?thesis
                        by (rule that(11)[of m c a ds e])
                          (use upto c9 c10 Inl in
                            \<open>auto simp add: run_def pipeline_defs after_run_def
                               calls_until_search_def calls_until_create_def deal_needed_def\<close>)
                    next
                      case c11: (Inr u11)
                      show ?thesis
                        by (rule that(12)[of m c a ds])
                          (use upto c9 c10 c11 in
                            \<open>auto simp add: run_def pipeline_defs after_run_def
                               calls_until_search_def calls_until_create_def
                               deal_needed_def send_update_def update_calls_def
                               connections_after_def split: sum.splits\<close>)
                    qed
                  qed
                qed
              qed
            qed
          qed
        qed
      qed
    qed
  qed
qed

lemma fresh_world_simps [simp]:
  "email_content fresh_world = None"
  "calls fresh_world = []"
  "email_analysis_logs fresh_world = []"
  "logger_errors fresh_world = []"
  "active_connections fresh_world = {}"
  by (simp_all add: fresh_world_def)

text \<open>The example runs, computed.\<close>

lemma example_run:
  "''u1'' \<notin> active_connections w \<Longrightarrow>
   process_email_webhook example_services example_webhook ''u1'' w =
     (Inr (), after_run w example_calls [example_row] [])"
  by (simp add: pipeline_defs send_update_def after_run_def example_services_def
        example_webhook_def example_analysis_def example_calls_def example_row_def)

lemma example_run_fresh:
  "process_email_webhook example_services example_webhook ''u1'' fresh_world =
     (Inr (), after_run fresh_world example_calls [example_row] [])"
  by (rule example_run) simp

lemma second_run:
  "''u1'' \<notin> active_connections w \<Longrightarrow>
   process_email_webhook services_after_deal example_webhook ''u1'' w =
     (Inr (), after_run w second_calls [second_row] [])"
  by (simp add: pipeline_defs send_update_def after_run_def services_after_deal_def
        example_services_def example_webhook_def example_analysis_def second_calls_def
        second_row_def)

lemma limited_run:
  "process_email_webhook limited_services example_webhook ''u1'' w =
     (Inl (Raised ''usage_limit_exceeded''),
      after_run w [CheckLimits ''u1''] [] [(''u1'', Raised ''usage_limit_exceeded'')])"
  by (simp add: pipeline_defs after_run_def limited_services_def example_services_def
        error_lines_def)

lemma broken_socket_run:
  "process_email_webhook broken_socket_services example_webhook ''u1'' connected_world =
     (Inr (),
      after_run fresh_world (example_calls @ [SendText ''u1'' example_analysis True])
        [log_data broken_socket_services ''u1'' example_analysis True] [])"
  by (simp add: pipeline_defs send_update_def after_run_def broken_socket_services_def
        example_services_def example_webhook_def example_analysis_def example_calls_def
        example_row_def connected_world_def fresh_world_def log_data_def)

lemma example_calls_of_run [simp]:
  "calls_of_run example_services example_webhook ''u1'' fresh_world = example_calls"
  by (simp add: calls_of_run_def example_run_fresh)

lemma example_rows_of_run [simp]:
  "rows_of_run example_services example_webhook ''u1'' fresh_world = [example_row]"
  by (simp add: rows_of_run_def example_run_fresh)

lemma limited_calls_of_run [simp]:
  "calls_of_run limited_services example_webhook ''u1'' w = [CheckLimits ''u1'']"
  by (simp add: calls_of_run_def limited_run)

lemma limited_rows_of_run [simp]:
  "rows_of_run limited_services example_webhook ''u1'' w = []"
  by (simp add: rows_of_run_def limited_run)

text \<open>
  C3, as stated, fails. When the usage monitor refuses, the run raises the exception to
  its caller and leaves behind the one call and one logger line: no state of the event,
  Failed or other, and no reason is recorded anywhere. And the one check of the sources
  that takes an estimate, as a reservation would, sits in the analyzer and is computed
  from the content, which has been fetched by then.
\<close>

theorem limit_refusal_records_no_state:
  "process_email_webhook limited_services example_webhook ''u1'' fresh_world
     = (Inl (Raised ''usage_limit_exceeded''),
        fresh_world\<lparr> calls := [CheckLimits ''u1''],
                      logger_errors := [(''u1'', Raised ''usage_limit_exceeded'')] \<rparr>) \<and>
   AIAnalyzer_analyze_email spend_limited_analyzer ''u1'' ''renewal''
     = (Inl (Raised ''spend_limit_exceeded''),
        [ClientOf ''u1'', CheckSpendLimit ''u1'' (1 / 100)]) \<and>
   estimate_tokens spend_limited_analyzer ''renewal'' = 7"
proof -
  have "process_email_webhook limited_services example_webhook ''u1'' fresh_world
     = (Inl (Raised ''usage_limit_exceeded''),
        fresh_world\<lparr> calls := [CheckLimits ''u1''],
                      logger_errors := [(''u1'', Raised ''usage_limit_exceeded'')] \<rparr>)"
    by (simp add: limited_run after_run_def fresh_world_def)
  moreover have "AIAnalyzer_analyze_email spend_limited_analyzer ''u1'' ''renewal''
     = (Inl (Raised ''spend_limit_exceeded''),
        [ClientOf ''u1'', CheckSpendLimit ''u1'' (1 / 100)])"
    by (simp add: AIAnalyzer_analyze_email_def spend_limited_analyzer_def Let_def)
  moreover have "estimate_tokens spend_limited_analyzer ''renewal'' = 7"
    by (simp add: spend_limited_analyzer_def)
  ultimately show ?thesis by blast
qed

text \<open>
  C3, amended. The budget check of the pipeline is \<open>check_limits\<close>, which takes the user
  and no estimate and reserves nothing. It is the first call of every run, so it comes
  strictly before any fetch of content, and content is fetched or analysed only in a run
  whose check returned. Whenever the check raises, the run raises that same exception
  to its caller after this one call and one logger line (none for a cancellation): no
  content is fetched, no analysis is asked for, and nothing else is recorded. The check
  against an estimate is the analyzer's \<open>check_spend_limit\<close>, on the cost estimated from
  the content it is handed; whenever it raises, the analyzer raises the same exception
  and makes no AI request.
\<close>

theorem check_limits_before_content:
  "(\<exists>rest. calls_of_run sv wd uid w = CheckLimits uid # rest) \<and>
   (\<forall>i m. i < length (calls_of_run sv wd uid w) \<and>
      calls_of_run sv wd uid w ! i = GetEmailContent m \<longrightarrow>
      0 < i \<and> calls_of_run sv wd uid w ! 0 = CheckLimits uid) \<and>
   (\<forall>m. GetEmailContent m \<in> set (calls_of_run sv wd uid w) \<or>
      AnalyzeEmail m \<in> set (calls_of_run sv wd uid w) \<longrightarrow> check_limits sv uid = Inr ()) \<and>
   (\<forall>e. check_limits sv uid = Inl e \<longrightarrow>
      process_email_webhook sv wd uid w
        = (Inl e, after_run w [CheckLimits uid] [] (error_lines uid e)) \<and>
      calls_of_run sv wd uid w = [CheckLimits uid] \<and>
      rows_of_run sv wd uid w = []) \<and>
   (\<forall>model e. analyzer_get_ai_client asv uid = Inr model \<and>
      check_spend_limit asv uid (estimate_cost asv (estimate_tokens asv content) model) = Inl e
      \<longrightarrow>
      AIAnalyzer_analyze_email asv uid content
        = (Inl e,
           [ClientOf uid,
            CheckSpendLimit uid
              (estimate_cost asv (estimate_tokens asv content) model)]))"
proof -
  have first: "\<exists>rest. calls_of_run sv wd uid w = CheckLimits uid # rest"
    by (cases rule: run_cases[where sv=sv and wd=wd and uid=uid])
       (simp_all add: calls_of_run_def calls_until_create_def calls_until_search_def)
  have "0 < i \<and> calls_of_run sv wd uid w ! 0 = CheckLimits uid"
    if "i < length (calls_of_run sv wd uid w)"
      and "calls_of_run sv wd uid w ! i = GetEmailContent m" for i m
    using first that by (cases i) auto
  moreover have "check_limits sv uid = Inr ()"
    if "GetEmailContent m \<in> set (calls_of_run sv wd uid w) \<or>
        AnalyzeEmail m \<in> set (calls_of_run sv wd uid w)" for m
    using that
    by (cases rule: run_cases[where sv=sv and wd=wd and uid=uid])
       (simp_all add: calls_of_run_def)
  moreover have "process_email_webhook sv wd uid w
        = (Inl e, after_run w [CheckLimits uid] [] (error_lines uid e)) \<and>
      calls_of_run sv wd uid w = [CheckLimits uid] \<and> rows_of_run sv wd uid w = []"
    if "check_limits sv uid = Inl e" for e
    using that
    by (cases rule: run_cases[where sv=sv and wd=wd and uid=uid])
       (simp_all add: calls_of_run_def rows_of_run_def)
  moreover have "AIAnalyzer_analyze_email asv uid content
        = (Inl e,
           [ClientOf uid,
            CheckSpendLimit uid
              (estimate_cost asv (estimate_tokens asv content) model)])"
    if "analyzer_get_ai_client asv uid = Inr model \<and>
      check_spend_limit asv uid (estimate_cost asv (estimate_tokens asv content) model) = Inl e"
    for model e
    using that by (simp add: AIAnalyzer_analyze_email_def Let_def)
  ultimately show ?thesis using first by blast
qed

theorem check_limits_before_content_witness:
  "check_limits limited_services ''u1'' = Inl (Raised ''usage_limit_exceeded'') \<and>
   process_email_webhook limited_services example_webhook ''u1'' fresh_world
     = (Inl (Raised ''usage_limit_exceeded''),
        after_run fresh_world [CheckLimits ''u1''] []
          (error_lines ''u1'' (Raised ''usage_limit_exceeded''))) \<and>
   calls_of_run limited_services example_webhook ''u1'' fresh_world = [CheckLimits ''u1''] \<and>
   analyzer_get_ai_client spend_limited_analyzer ''u1'' = Inr ''gpt-4'' \<and>
   check_spend_limit spend_limited_analyzer ''u1''
       (estimate_cost spend_limited_analyzer
          (estimate_tokens spend_limited_analyzer ''renewal'') ''gpt-4'')
     = Inl (Raised ''spend_limit_exceeded'') \<and>
   AIAnalyzer_analyze_email spend_limited_analyzer ''u1'' ''renewal''
     = (Inl (Raised ''spend_limit_exceeded''),
        [ClientOf ''u1'',
         CheckSpendLimit ''u1''
           (estimate_cost spend_limited_analyzer
              (estimate_tokens spend_limited_analyzer ''renewal'') ''gpt-4'')])"
proof -
  have raised: "check_limits limited_services ''u1'' = Inl (Raised ''usage_limit_exceeded'')"
    by (simp add: limited_services_def example_services_def)
  have client: "analyzer_get_ai_client spend_limited_analyzer ''u1'' = Inr ''gpt-4''"
    and refused: "check_spend_limit spend_limited_analyzer ''u1''
       (estimate_cost spend_limited_analyzer
          (estimate_tokens spend_limited_analyzer ''renewal'') ''gpt-4'')
     = Inl (Raised ''spend_limit_exceeded'')"
    by (simp_all add: spend_limited_analyzer_def)
  from check_limits_before_content
         [of limited_services example_webhook "''u1''" fresh_world spend_limited_analyzer
             "''renewal''"]
       raised client refused
  show ?thesis by blast
qed

lemma run_bounds:
  "length (rows_of_run sv wd uid w) \<le> 1 \<and>
   length (filter is_create_deal (calls_of_run sv wd uid w)) \<le> 1"
  by (cases rule: run_cases[where sv=sv and wd=wd and uid=uid])
     (simp_all add: calls_of_run_def rows_of_run_def calls_until_create_def
        calls_until_search_def update_calls_def is_create_deal_def)

lemma no_deal_when_search_finds_one:
  assumes "\<forall>k. search_deals sv k \<noteq> Inr []"
  shows "filter is_create_deal (calls_of_run sv wd uid w) = []"
  using assms
  by (cases rule: run_cases[where sv=sv and wd=wd and uid=uid])
     (auto simp add: calls_of_run_def calls_until_create_def calls_until_search_def
        update_calls_def is_create_deal_def deal_needed_def)

lemma successful_run_adds_one_row:
  assumes "process_email_webhook sv wd uid w = (Inr (), w1)"
  shows "length (email_analysis_logs w1) = length (email_analysis_logs w) + 1"
  using assms
  by (cases rule: run_cases[where sv=sv and wd=wd and uid=uid]) auto

text \<open>
  C1, as stated, fails. The same webhook of the same user is processed twice, the second
  time after the first run has returned and with a search that now finds the deal the
  first run created: the second run is not cut short, it makes all its calls again and
  stores a second row. The table holds two rows for the one key.
\<close>

theorem resubmission_is_processed_again:
  "process_email_webhook example_services example_webhook ''u1'' fresh_world
     = (Inr (), after_run fresh_world example_calls [example_row] []) \<and>
   process_email_webhook services_after_deal example_webhook ''u1''
       (after_run fresh_world example_calls [example_row] [])
     = (Inr (), after_run (after_run fresh_world example_calls [example_row] [])
                  second_calls [second_row] []) \<and>
   email_analysis_logs (after_run (after_run fresh_world example_calls [example_row] [])
                  second_calls [second_row] []) = [example_row, second_row]"
proof -
  have "process_email_webhook services_after_deal example_webhook ''u1''
       (after_run fresh_world example_calls [example_row] [])
     = (Inr (), after_run (after_run fresh_world example_calls [example_row] [])
                  second_calls [second_row] [])"
    by (rule second_run) simp
  moreover have "email_analysis_logs
       (after_run (after_run fresh_world example_calls [example_row] [])
          second_calls [second_row] []) = [example_row, second_row]"
    by simp
  ultimately show ?thesis using example_run_fresh by blast
qed

text \<open>
  C1, amended. The pipeline keeps no record of the keys it has processed, and a second
  submission is processed like the first: two runs of the same webhook that both return
  store two rows. One run stores at most one row and asks for at most one deal, and a
  run whose search never answers with an empty list, because it finds an existing deal,
  asks for none.
\<close>

theorem one_row_per_run:
  "length (rows_of_run sv wd uid w) \<le> 1 \<and>
   length (filter is_create_deal (calls_of_run sv wd uid w)) \<le> 1 \<and>
   ((\<forall>k. search_deals sv k \<noteq> Inr []) \<longrightarrow>
      filter is_create_deal (calls_of_run sv wd uid w) = []) \<and>
   (\<forall>sv2 w1 w2.
      process_email_webhook sv wd uid w = (Inr (), w1) \<and>
      process_email_webhook sv2 wd uid w1 = (Inr (), w2) \<longrightarrow>
      length (email_analysis_logs w2) = length (email_analysis_logs w) + 2)"
proof -
  have "length (email_analysis_logs w2) = length (email_analysis_logs w) + 2"
    if "process_email_webhook sv wd uid w = (Inr (), w1)"
      and "process_email_webhook sv2 wd uid w1 = (Inr (), w2)" for sv2 w1 w2
    using successful_run_adds_one_row[OF that(1)] successful_run_adds_one_row[OF that(2)]
    by simp
  then show ?thesis
    using run_bounds[of sv wd uid w] no_deal_when_search_finds_one[of sv wd uid w] by blast
qed

theorem one_row_per_run_witness:
  "process_email_webhook example_services example_webhook ''u1'' fresh_world
     = (Inr (), after_run fresh_world example_calls [example_row] []) \<and>
   process_email_webhook services_after_deal example_webhook ''u1''
       (after_run fresh_world example_calls [example_row] [])
     = (Inr (), after_run (after_run fresh_world example_calls [example_row] [])
                  second_calls [second_row] []) \<and>
   length (email_analysis_logs (after_run (after_run fresh_world example_calls [example_row] [])
                  second_calls [second_row] []))
     = length (email_analysis_logs fresh_world) + 2 \<and>
   filter is_create_deal
     (calls_of_run services_after_deal example_webhook ''u1''
        (after_run fresh_world example_calls [example_row] [])) = []"
proof -
  have r1: "process_email_webhook example_services example_webhook ''u1'' fresh_world
     = (Inr (), after_run fresh_world example_calls [example_row] [])"
    by (rule example_run_fresh)
  have r2: "process_email_webhook services_after_deal example_webhook ''u1''
       (after_run fresh_world example_calls [example_row] [])
     = (Inr (), after_run (after_run fresh_world example_calls [example_row] [])
                  second_calls [second_row] [])"
    by (rule second_run) simp
  have found: "\<forall>k. search_deals services_after_deal k \<noteq> Inr []"
    by (simp add: services_after_deal_def)
  from one_row_per_run[of example_services example_webhook "''u1''" fresh_world] r1 r2
  have "length (email_analysis_logs
          (after_run (after_run fresh_world example_calls [example_row] [])
             second_calls [second_row] []))
        = length (email_analysis_logs fresh_world) + 2"
    by blast
  moreover
  from one_row_per_run[of services_after_deal example_webhook "''u1''"
         "after_run fresh_world example_calls [example_row] []"] found
  have "filter is_create_deal
     (calls_of_run services_after_deal example_webhook ''u1''
        (after_run fresh_world example_calls [example_row] [])) = []"
    by blast
  ultimately show ?thesis using r1 r2 by blast
qed

text \<open>
  C2, as stated, fails. The email is the one word \<open>renewal\<close>, the analysis returns it as
  a keyword, and the stored row holds it among the detected keywords.
\<close>

theorem content_reaches_row_through_analysis:
  "get_email_content example_services ''m1'' = Inr ''renewal'' \<and>
   email_analysis_logs
     (snd (process_email_webhook example_services example_webhook ''u1'' fresh_world))
     = [example_row] \<and>
   row_contains ''renewal'' example_row"
proof -
  have "get_email_content example_services ''m1'' = Inr ''renewal''"
    by (simp add: example_services_def)
  moreover have "email_analysis_logs
     (snd (process_email_webhook example_services example_webhook ''u1'' fresh_world))
     = [example_row]"
    by (simp add: example_run_fresh)
  moreover have "row_contains ''renewal'' example_row"
    by (simp add: example_row_def log_data_def row_contains_def text_fields_def
          example_analysis_def)
  ultimately show ?thesis by blast
qed

lemma row_contains_log_data:
  "row_contains t (log_data sv uid a d) =
     (occurs_in t uid \<or> occurs_in t (sender_domain a) \<or>
      occurs_in t (hash_subject sv (subject a)) \<or> occurs_in t (safe_summary a) \<or>
      list_ex (occurs_in t) (keywords' a))"
  by (simp add: row_contains_def text_fields_def log_data_def)

lemma rows_come_from_analysis:
  "\<forall>row \<in> set (rows_of_run sv wd uid w). \<exists>m c a d.
     wd ''message_id'' = Some m \<and> get_email_content sv m = Inr c \<and>
     analyze_email sv c = Inr a \<and> row = log_data sv uid a d"
  by (cases rule: run_cases[where sv=sv and wd=wd and uid=uid])
     (auto simp add: rows_of_run_def)

lemma content_cleared: "email_content (snd (process_email_webhook sv wd uid w)) = None"
  by (cases rule: run_cases[where sv=sv and wd=wd and uid=uid]) simp_all

text \<open>
  C2, amended. On every way out the content variable is None, and the logging function
  refuses any content it is handed. A stored row is built from the user id and the
  analysis the AI returned for the fetched content, so a text occurs in a row only if it
  occurs in the user id, in the subject's hash or in what the analysis returned (sender
  domain, summary, keywords): the content is kept out of the rows as far as the analysis
  and the hash keep it out.
\<close>

theorem content_only_through_analysis:
  "email_content (snd (process_email_webhook sv wd uid w)) = None \<and>
   (content \<noteq> None \<longrightarrow>
      log_email_analysis sv uid a d content w
        = (Inl (ValueError ''Email content must never be stored''), w)) \<and>
   (\<forall>row \<in> set (rows_of_run sv wd uid w). \<forall>t. row_contains t row \<longrightarrow>
      (\<exists>m c an. wd ''message_id'' = Some m \<and> get_email_content sv m = Inr c \<and>
         analyze_email sv c = Inr an \<and>
         (occurs_in t uid \<or> occurs_in t (sender_domain an) \<or>
          occurs_in t (hash_subject sv (subject an)) \<or> occurs_in t (safe_summary an) \<or>
          list_ex (occurs_in t) (keywords' an))))"
proof -
  have "\<exists>m c an. wd ''message_id'' = Some m \<and> get_email_content sv m = Inr c \<and>
         analyze_email sv c = Inr an \<and>
         (occurs_in t uid \<or> occurs_in t (sender_domain an) \<or>
          occurs_in t (hash_subject sv (subject an)) \<or> occurs_in t (safe_summary an) \<or>
          list_ex (occurs_in t) (keywords' an))"
    if inrows: "row \<in> set (rows_of_run sv wd uid w)" and has: "row_contains t row"
    for row t
  proof -
    obtain m c an d' where
      h: "wd ''message_id'' = Some m" "get_email_content sv m = Inr c"
         "analyze_email sv c = Inr an" "row = log_data sv uid an d'"
      using rows_come_from_analysis[of sv wd uid w] inrows by blast
    from has h(4) have "row_contains t (log_data sv uid an d')" by simp
    then show ?thesis using h(1,2,3) unfolding row_contains_log_data by blast
  qed
  moreover have "content \<noteq> None \<longrightarrow>
      log_email_analysis sv uid a d content w
        = (Inl (ValueError ''Email content must never be stored''), w)"
    by (simp add: log_email_analysis_def raise_def)
  ultimately show ?thesis using content_cleared[of sv wd uid w] by blast
qed

theorem content_only_through_analysis_witness:
  "email_content (snd (process_email_webhook example_services example_webhook ''u1''
     fresh_world)) = None \<and>
   log_email_analysis example_services ''u1'' example_analysis True (Some ''renewal'')
       fresh_world
     = (Inl (ValueError ''Email content must never be stored''), fresh_world) \<and>
   example_row \<in> set (rows_of_run example_services example_webhook ''u1'' fresh_world) \<and>
   row_contains ''example.com'' example_row \<and>
   occurs_in ''example.com'' (sender_domain example_analysis)"
proof -
  note th = content_only_through_analysis
          [of example_services example_webhook "''u1''" fresh_world "Some ''renewal''"
              example_analysis True]
  have "row_contains ''example.com'' example_row"
    by (simp add: example_row_def log_data_def row_contains_def text_fields_def
          example_analysis_def)
  moreover have "occurs_in ''example.com'' (sender_domain example_analysis)"
    by (simp add: example_analysis_def)
  moreover have "example_row \<in> set (rows_of_run example_services example_webhook ''u1''
     fresh_world)"
    by simp
  ultimately show ?thesis using th by simp
qed

text \<open>
  C5, as stated, fails. The usage monitor raises; the run raises the same exception and
  the table of analysis logs stays empty: no row is written for the failed event. And
  an error is swallowed: the websocket fails to send, \<open>send_update\<close> catches the
  exception, and the run returns normally without a logger line.
\<close>

theorem failed_run_stores_no_row:
  "fst (process_email_webhook limited_services example_webhook ''u1'' fresh_world)
     = Inl (Raised ''usage_limit_exceeded'') \<and>
   email_analysis_logs
     (snd (process_email_webhook limited_services example_webhook ''u1'' fresh_world)) = [] \<and>
   send_text broken_socket_services ''u1'' example_analysis True
     = Inl (Raised ''connection_closed'') \<and>
   SendText ''u1'' example_analysis True
     \<in> set (calls (snd (process_email_webhook broken_socket_services example_webhook ''u1''
                          connected_world))) \<and>
   fst (process_email_webhook broken_socket_services example_webhook ''u1'' connected_world)
     = Inr () \<and>
   logger_errors
     (snd (process_email_webhook broken_socket_services example_webhook ''u1''
             connected_world)) = []"
proof -
  have "send_text broken_socket_services ''u1'' example_analysis True
     = Inl (Raised ''connection_closed'')"
    by (simp add: broken_socket_services_def)
  then show ?thesis
    by (simp add: limited_run broken_socket_run)
qed

text \<open>
  C5, amended. A run that fails raises the exception to its caller, after writing one
  line with it through the logger (none for a cancellation) and setting the content
  variable to None. It writes no row, unless the row was already stored and the failure
  came afterwards, from the usage tracking. An error of the websocket's sending is
  swallowed by \<open>send_update\<close> and does not fail the run. No other error is swallowed: a
  run returns normally if and only if every other call it made returned.
\<close>

theorem failure_is_raised_not_recorded:
  "(\<forall>e w'. process_email_webhook sv wd uid w = (Inl e, w') \<longrightarrow>
      logger_errors w' = logger_errors w @ (if e = CancelledError then [] else [(uid, e)]) \<and>
      email_content w' = None \<and>
      (email_analysis_logs w' = email_analysis_logs w \<or>
       (\<exists>a d. email_analysis_logs w' = email_analysis_logs w @ [log_data sv uid a d] \<and>
          db_add sv (log_data sv uid a d) = Inr () \<and>
          track_usage sv uid (tokens_used a) (cost a) = Inl e))) \<and>
   (fst (process_email_webhook sv wd uid w) = Inr () \<longleftrightarrow>
      check_limits sv uid = Inr () \<and> get_outlook_client sv uid = Inr () \<and>
      get_ai_client sv uid = Inr () \<and> get_pipedrive_client sv uid = Inr () \<and>
      (\<exists>m c a ds. wd ''message_id'' = Some m \<and> get_email_content sv m = Inr c \<and>
         analyze_email sv c = Inr a \<and> search_deals sv (keywords' a) = Inr ds \<and>
         (deal_needed a ds \<longrightarrow> (\<exists>d. create_deal sv a = Inr d)) \<and>
         db_add sv (log_data sv uid a (deal_needed a ds)) = Inr () \<and>
         track_usage sv uid (tokens_used a) (cost a) = Inr ()))"
  by (cases rule: run_cases[where sv=sv and wd=wd and uid=uid])
     (auto simp add: error_lines_def)

theorem failure_is_raised_not_recorded_witness:
  "process_email_webhook limited_services example_webhook ''u1'' fresh_world
     = (Inl (Raised ''usage_limit_exceeded''),
        after_run fresh_world [CheckLimits ''u1''] []
          [(''u1'', Raised ''usage_limit_exceeded'')]) \<and>
   logger_errors (after_run fresh_world [CheckLimits ''u1''] []
          [(''u1'', Raised ''usage_limit_exceeded'')])
     = logger_errors fresh_world @ [(''u1'', Raised ''usage_limit_exceeded'')] \<and>
   fst (process_email_webhook broken_socket_services example_webhook ''u1'' connected_world)
     = Inr () \<and>
   check_limits broken_socket_services ''u1'' = Inr () \<and>
   track_usage broken_socket_services ''u1'' 150 (1 / 100) = Inr ()"
proof -
  note th1 = failure_is_raised_not_recorded
               [of limited_services example_webhook "''u1''" fresh_world]
  note th2 = failure_is_raised_not_recorded
               [of broken_socket_services example_webhook "''u1''" connected_world]
  have run: "process_email_webhook limited_services example_webhook ''u1'' fresh_world
     = (Inl (Raised ''usage_limit_exceeded''),
        after_run fresh_world [CheckLimits ''u1''] []
          [(''u1'', Raised ''usage_limit_exceeded'')])"
    by (rule limited_run)
  have ok: "fst (process_email_webhook broken_socket_services example_webhook ''u1''
                  connected_world) = Inr ()"
    by (simp add: broken_socket_run)
  from th1 run have "logger_errors (after_run fresh_world [CheckLimits ''u1''] []
          [(''u1'', Raised ''usage_limit_exceeded'')])
     = logger_errors fresh_world @
         (if Raised ''usage_limit_exceeded'' = CancelledError then []
          else [(''u1'', Raised ''usage_limit_exceeded'')])"
    by blast
  then have "logger_errors (after_run fresh_world [CheckLimits ''u1''] []
          [(''u1'', Raised ''usage_limit_exceeded'')])
     = logger_errors fresh_world @ [(''u1'', Raised ''usage_limit_exceeded'')]"
    by simp
  moreover from th2 ok have "check_limits broken_socket_services ''u1'' = Inr ()"
    by blast
  moreover have "track_usage broken_socket_services ''u1'' 150 (1 / 100) = Inr ()"
    by (simp add: broken_socket_services_def example_services_def)
  ultimately show ?thesis using run ok by blast
qed

text \<open>
  C6, as stated, fails. The analysis flags an opportunity with confidence 0, which is
  above no threshold a confidence policy could set, and the search finds no deal: the
  deal is created.
\<close>

theorem deal_created_at_zero_confidence:
  "CreateDeal example_analysis
     \<in> set (calls_of_run example_services example_webhook ''u1'' fresh_world) \<and>
   is_sales_opportunity example_analysis \<and>
   search_deals example_services (keywords' example_analysis) = Inr [] \<and>
   \<not> 0 < confidence example_analysis"
proof -
  have "CreateDeal example_analysis
     \<in> set (calls_of_run example_services example_webhook ''u1'' fresh_world)"
    by (simp add: example_calls_def)
  moreover have "is_sales_opportunity example_analysis"
    and "\<not> 0 < confidence example_analysis"
    by (simp_all add: example_analysis_def)
  moreover have "search_deals example_services (keywords' example_analysis) = Inr []"
    by (simp add: example_services_def)
  ultimately show ?thesis by blast
qed

text \<open>
  C6, amended. For an event that was analysed and whose search for existing deals
  returned, the creation of a deal is asked for (once, for this analysis) if and only
  if the search found nothing and the analysis flags an opportunity; the confidence is
  not consulted. The pipeline stores no link of its own: the stored row says whether a
  deal was created.
\<close>

theorem deal_created_iff_opportunity_and_no_match:
  assumes "check_limits sv uid = Inr ()" and "get_outlook_client sv uid = Inr ()"
    and "wd ''message_id'' = Some m" and "get_email_content sv m = Inr c"
    and "get_ai_client sv uid = Inr ()" and "analyze_email sv c = Inr a"
    and "get_pipedrive_client sv uid = Inr ()" and "search_deals sv (keywords' a) = Inr ds"
  shows "(\<forall>a'. CreateDeal a' \<in> set (calls_of_run sv wd uid w)
            \<longleftrightarrow> a' = a \<and> is_sales_opportunity a \<and> ds = []) \<and>
         length (filter is_create_deal (calls_of_run sv wd uid w)) \<le> 1 \<and>
         (\<forall>row \<in> set (rows_of_run sv wd uid w).
            log_deal_created row = (is_sales_opportunity a \<and> ds = []))"
  using assms
  by (cases rule: run_cases[where sv=sv and wd=wd and uid=uid])
     (auto simp add: calls_of_run_def rows_of_run_def calls_until_create_def
        calls_until_search_def deal_needed_def log_data_def is_create_deal_def
        update_calls_def)

theorem deal_created_iff_opportunity_and_no_match_witness:
  "check_limits example_services ''u1'' = Inr () \<and>
   get_outlook_client example_services ''u1'' = Inr () \<and>
   example_webhook ''message_id'' = Some ''m1'' \<and>
   get_email_content example_services ''m1'' = Inr ''renewal'' \<and>
   get_ai_client example_services ''u1'' = Inr () \<and>
   analyze_email example_services ''renewal'' = Inr example_analysis \<and>
   get_pipedrive_client example_services ''u1'' = Inr () \<and>
   search_deals example_services (keywords' example_analysis) = Inr [] \<and>
   CreateDeal example_analysis
     \<in> set (calls_of_run example_services example_webhook ''u1'' fresh_world) \<and>
   is_sales_opportunity example_analysis \<and>
   log_deal_created example_row"
proof -
  have pre: "check_limits example_services ''u1'' = Inr ()"
    "get_outlook_client example_services ''u1'' = Inr ()"
    "example_webhook ''message_id'' = Some ''m1''"
    "get_email_content example_services ''m1'' = Inr ''renewal''"
    "get_ai_client example_services ''u1'' = Inr ()"
    "analyze_email example_services ''renewal'' = Inr example_analysis"
    "get_pipedrive_client example_services ''u1'' = Inr ()"
    "search_deals example_services (keywords' example_analysis) = Inr []"
    by (simp_all add: example_services_def example_webhook_def)
  note th = deal_created_iff_opportunity_and_no_match
              [where sv=example_services and wd=example_webhook and uid="''u1''"
                 and m="''m1''" and c="''renewal''" and a=example_analysis and ds="[]"
                 and w=fresh_world, OF pre]
  have opp: "is_sales_opportunity example_analysis"
    by (simp add: example_analysis_def)
  from th opp have "CreateDeal example_analysis
     \<in> set (calls_of_run example_services example_webhook ''u1'' fresh_world)"
    by blast
  moreover from th opp have "log_deal_created example_row"
    by simp
  ultimately show ?thesis using pre opp by blast
qed

section \<open>UsageGuard: reservation and reconciliation\<close>














section \<open>The frontend routes\<close>

text \<open>
  C8. With an email and a password that are both non-empty, \<open>authorize\<close> never returns
  null. When the lookup throws or answers with a status that is not ok, it returns the
  fallback user, whose id is \<open>user-\<close> followed by the email and whose name is the email
  up to its first \<open>@\<close>. The password is never looked at beyond being non-empty: any other
  non-empty password gives the same result.
\<close>

theorem authorize_never_null:
  assumes "cred_email c = Some e" and "e \<noteq> []"
    and "cred_password c = Some p" and "p \<noteq> []"
  shows "fst (authorize api_url fetch (Some c)) \<noteq> None \<and>
         ((\<exists>err. fetch (user_lookup_request api_url e) = Inl err) \<or>
          (\<exists>r. fetch (user_lookup_request api_url e) = Inr r \<and> \<not> ok r) \<longrightarrow>
            fst (authorize api_url fetch (Some c))
              = Some \<lparr> id' = Some (JStr (''user-'' @ e)),
                       email = Some (JStr e),
                       name = Some (JStr (takeWhile (\<lambda>ch. ch \<noteq> CHR ''@'') e)),
                       image' = Some JNull \<rparr>) \<and>
         (\<forall>p'. p' \<noteq> [] \<longrightarrow>
            authorize api_url fetch (Some (c\<lparr> cred_password := Some p' \<rparr>))
              = authorize api_url fetch (Some c))"
  using assms
  by (auto simp: authorize_def truthy_string_def fallback_user_def email_prefix_def Let_def
        split: sum.splits)

theorem authorize_never_null_witness:
  "cred_email example_credentials = Some ''ann@example.com'' \<and>
   cred_password example_credentials = Some ''x'' \<and>
   unreachable_backend (user_lookup_request None ''ann@example.com'')
     = Inl (Error ''fetch failed'') \<and>
   fst (authorize None unreachable_backend (Some example_credentials))
     = Some \<lparr> id' = Some (JStr ''user-ann@example.com''),
              email = Some (JStr ''ann@example.com''),
              name = Some (JStr ''ann''),
              image' = Some JNull \<rparr> \<and>
   authorize None unreachable_backend
       (Some (example_credentials\<lparr> cred_password := Some ''another'' \<rparr>))
     = authorize None unreachable_backend (Some example_credentials)"
proof -
  have pre: "cred_email example_credentials = Some ''ann@example.com''"
    "''ann@example.com'' \<noteq> []"
    "cred_password example_credentials = Some ''x''" "''x'' \<noteq> []"
    by (simp_all add: example_credentials_def)
  note th = authorize_never_null
              [where c=example_credentials and e="''ann@example.com''" and p="''x''"
                 and api_url=None and fetch=unreachable_backend, OF pre]
  have thrown: "unreachable_backend (user_lookup_request None ''ann@example.com'')
     = Inl (Error ''fetch failed'')"
    by (simp add: unreachable_backend_def)
  have other: "''another'' \<noteq> []"
    by simp
  from th thrown
  have "fst (authorize None unreachable_backend (Some example_credentials))
     = Some \<lparr> id' = Some (JStr (''user-'' @ ''ann@example.com'')),
              email = Some (JStr ''ann@example.com''),
              name = Some (JStr (takeWhile (\<lambda>ch. ch \<noteq> CHR ''@'') ''ann@example.com'')),
              image' = Some JNull \<rparr>"
    by blast
  then have "fst (authorize None unreachable_backend (Some example_credentials))
     = Some \<lparr> id' = Some (JStr ''user-ann@example.com''),
              email = Some (JStr ''ann@example.com''),
              name = Some (JStr ''ann''),
              image' = Some JNull \<rparr>"
    by simp
  moreover from th other
  have "authorize None unreachable_backend
       (Some (example_credentials\<lparr> cred_password := Some ''another'' \<rparr>))
     = authorize None unreachable_backend (Some example_credentials)"
    by blast
  ultimately show ?thesis using pre(1,3) thrown by blast
qed

text \<open>
  C9, as stated, fails, in two ways. The last refresh was at 1700000000000. A first call
  1500 ms later is debounced and leaves the state as it is; a second call 1000 ms after
  the first is 2500 ms after the last refresh and sends a request. And when a first call
  2500 ms after the last refresh does refresh, a second call 100 ms later through the
  same callback still reads the old \<open>lastRefresh\<close> and sends a request as well.
\<close>

theorem debounced_call_does_not_restart_window:
  "refreshStatus status_backend object_to_string (lastRefresh example_state) 1700000001500
       ''u1'' example_state
     = (example_state, []) \<and>
   (1700000002500 :: int) - 1700000001500 < 2000 \<and>
   snd (refreshStatus status_backend object_to_string (lastRefresh example_state)
          1700000002500 ''u1'' example_state)
     = [status_request ''u1''] \<and>
   lastRefresh (fst (refreshStatus status_backend object_to_string (lastRefresh example_state)
          1700000002500 ''u1'' example_state)) = 1700000002500 \<and>
   (1700000002600 :: int) - 1700000002500 < 2000 \<and>
   snd (refreshStatus status_backend object_to_string (lastRefresh example_state)
          1700000002600 ''u1''
          (fst (refreshStatus status_backend object_to_string (lastRefresh example_state)
                  1700000002500 ''u1'' example_state)))
     = [status_request ''u1'']"
  by (simp add: refreshStatus_def example_state_def fetch_status_def status_backend_def
        ok_def Let_def)

text \<open>
  C9, amended. When the first call did refresh (it was not itself debounced), and the
  second call is made through a callback of a render that has seen the first call's
  \<open>lastRefresh\<close> (the first still waiting for the network, or finished), and begins less
  than 2000 ms after the first, then the second call returns at once, sends no request
  and leaves the state unchanged.
\<close>

theorem refresh_debounced_after_refresh:
  assumes "\<not> now1 - captured1 < 2000"
    and "s1 = fst (refreshStatus fetch1 ts1 captured1 now1 uid1 s) \<or>
         s1 = refreshStatus_begin captured1 now1 s"
    and "now2 - now1 < 2000"
  shows "refreshStatus fetch2 ts2 (lastRefresh s1) now2 uid2 s2 = (s2, [])"
proof -
  have "lastRefresh s1 = now1"
    using assms(1,2)
    by (auto simp: refreshStatus_def refreshStatus_begin_def Let_def
          split: sum.splits js_error.splits)
  then show ?thesis
    using assms(3) by (simp add: refreshStatus_def)
qed

theorem refresh_debounced_after_refresh_witness:
  "\<not> 1700000002500 - lastRefresh example_state < 2000 \<and>
   (1700000002600 :: int) - 1700000002500 < 2000 \<and>
   refreshStatus status_backend object_to_string
       (lastRefresh (refreshStatus_begin (lastRefresh example_state) 1700000002500
                       example_state))
       1700000002600 ''u1''
       (refreshStatus_begin (lastRefresh example_state) 1700000002500 example_state)
     = (refreshStatus_begin (lastRefresh example_state) 1700000002500 example_state, [])"
proof -
  have a: "\<not> 1700000002500 - lastRefresh example_state < 2000"
    by (simp add: example_state_def)
  have b: "(1700000002600 :: int) - 1700000002500 < 2000"
    by simp
  have c: "refreshStatus_begin (lastRefresh example_state) 1700000002500 example_state
           = fst (refreshStatus status_backend object_to_string (lastRefresh example_state)
                    1700000002500 ''u1'' example_state)
         \<or> refreshStatus_begin (lastRefresh example_state) 1700000002500 example_state
           = refreshStatus_begin (lastRefresh example_state) 1700000002500 example_state"
    by simp
  from refresh_debounced_after_refresh[OF a c b] a b show ?thesis by blast
qed

lemma get_prop_has_truthy_field:
  "body \<noteq> JNull \<Longrightarrow> get_prop body k = Inr v \<Longrightarrow> truthy v = has_truthy_field body k"
  by (cases body) (auto simp: has_truthy_field_def)

lemma get_prop_of_non_null: "body \<noteq> JNull \<Longrightarrow> \<exists>v. get_prop body k = Inr v"
  by (cases body) auto

text \<open>
  C10, as stated, fails in both directions. A body that is the JSON \<open>null\<close> has no
  fields, and the handler answers 500, the destructuring having thrown. And a body with
  both fields gets the very same 400 response when the backend answers 400 with that
  detail, after the request was forwarded.
\<close>

theorem missing_fields_response_not_equivalent:
  "lacks_provider_or_user_id JNull \<and>
   POST None unreachable_backend (Inr JNull)
     = (NextResponse (JObj [(''error'', JStr ''Internal server error'')]) 500, []) \<and>
   \<not> lacks_provider_or_user_id complete_body \<and>
   POST None rejecting_backend (Inr complete_body)
     = (NextResponse (JObj [(''error'', JStr ''Missing provider or user_id'')]) 400,
        [connect_request None (JStr ''pipedrive'') (JStr ''u1'')])"
  by (simp add: POST_def lacks_provider_or_user_id_def has_truthy_field_def
        internal_error_response_def complete_body_def rejecting_backend_def ok_def
        or_else_def Let_def)

text \<open>
  C10, amended. For every parsed body other than \<open>null\<close>, the handler answers 400 with
  the error \<open>Missing provider or user_id\<close> without forwarding anything if and only if
  the body lacks a truthy \<open>provider\<close> or \<open>user_id\<close>; when both are there, exactly one
  request goes to the backend.
\<close>

theorem missing_fields_rejected_without_forwarding:
  assumes "body \<noteq> JNull"
  shows "(POST api_url fetch (Inr body) = (missing_provider_response, []))
           = lacks_provider_or_user_id body \<and>
         (\<not> lacks_provider_or_user_id body \<longrightarrow>
            length (snd (POST api_url fetch (Inr body))) = 1)"
proof -
  obtain p where p: "get_prop body ''provider'' = Inr p"
    using get_prop_of_non_null[OF assms] by blast
  obtain u where u: "get_prop body ''user_id'' = Inr u"
    using get_prop_of_non_null[OF assms] by blast
  have tp: "truthy p = has_truthy_field body ''provider''"
    using get_prop_has_truthy_field[OF assms p] .
  have tu: "truthy u = has_truthy_field body ''user_id''"
    using get_prop_has_truthy_field[OF assms u] .
  show ?thesis
    by (auto simp: POST_def p u tp tu lacks_provider_or_user_id_def Let_def
          internal_error_response_def missing_provider_response_def split: sum.splits)
qed

theorem missing_fields_rejected_without_forwarding_witness:
  "JObj [(''provider'', JStr ''pipedrive'')] \<noteq> JNull \<and>
   lacks_provider_or_user_id (JObj [(''provider'', JStr ''pipedrive'')]) \<and>
   POST None rejecting_backend (Inr (JObj [(''provider'', JStr ''pipedrive'')]))
     = (missing_provider_response, []) \<and>
   \<not> lacks_provider_or_user_id complete_body \<and>
   length (snd (POST None rejecting_backend (Inr complete_body))) = 1"
proof -
  have a: "JObj [(''provider'', JStr ''pipedrive'')] \<noteq> JNull"
    and b: "complete_body \<noteq> JNull"
    by (simp_all add: complete_body_def)
  have lacks: "lacks_provider_or_user_id (JObj [(''provider'', JStr ''pipedrive'')])"
    and has: "\<not> lacks_provider_or_user_id complete_body"
    by (simp_all add: lacks_provider_or_user_id_def has_truthy_field_def complete_body_def)
  from missing_fields_rejected_without_forwarding[OF a, of None rejecting_backend] lacks
  have "POST None rejecting_backend (Inr (JObj [(''provider'', JStr ''pipedrive'')]))
     = (missing_provider_response, [])"
    by blast
  moreover from missing_fields_rejected_without_forwarding[OF b, of None rejecting_backend] has
  have "length (snd (POST None rejecting_backend (Inr complete_body))) = 1"
    by blast
  ultimately show ?thesis using a lacks has by blast
qed


end
